theory Spec2Isabelle
  imports Complex_Main "HOL-Library.Multiset" "HOL-Library.Product_Lexorder"
begin

section \<open>Model registry of orthoseg: \<open>orthoseg/model/model_helper.py\<close>\<close>

text \<open>
  The module names trained models after their metadata, reads the metadata back from
  the names, and keeps or deletes the models of a directory by their accuracies.

  Modelling decisions, each forced by the source:
  \<^item> A Python \<open>float\<close> is an IEEE-754 binary64 number: a finite value (a rational), the
    negative zero, an infinity or a NaN. Every arithmetic operation rounds its exact
    result to the nearest such number, ties to even; comparisons with a NaN are false;
    \<open>{x:.5f}\<close> rounds the exact value half-to-even at the fifth decimal.
  \<^item> Strings are lists of 8-bit characters, read as the code points 0 to 255.
    \<open>str.isdigit\<close>, \<open>int\<close> and \<open>float\<close> follow CPython on these: white space on both
    ends, a sign, underscores between digits, exponents, \<open>inf\<close> and \<open>nan\<close>.
  \<^item> A raised exception is the left summand of a result; \<open>return None\<close> of
    \<open>parse_model_filename\<close> is \<open>Inr None\<close>.
  \<^item> The model directory is a list of entries (name and directory flag) in listing
    order; a path inside it is identified by its final component.
\<close>

subsection \<open>Exceptions\<close>

datatype py_error = IndexError | ValueError | KeyError | ConfigError | MetricsMissing

subsection \<open>Floats of Python\<close>

text \<open>
  \<open>Finite q\<close> is the number of value \<open>q\<close>, \<open>Finite 0\<close> the positive zero. The sign and
  the payload of a NaN are not observable in this module: there is one NaN.
\<close>

datatype pyfloat = Finite rat | NegZero | PosInf | NegInf | NaN

fun is_nan :: "pyfloat \<Rightarrow> bool" where
  "is_nan NaN = True"
| "is_nan (Finite q) = False"
| "is_nan NegZero = False"
| "is_nan PosInf = False"
| "is_nan NegInf = False"



text \<open>The comparison \<open><=\<close> of IEEE-754: false as soon as one side is a NaN.\<close>

fun float_le :: "pyfloat \<Rightarrow> pyfloat \<Rightarrow> bool" where
  "float_le NaN b = False"
| "float_le (Finite p) NaN = False"
| "float_le NegZero NaN = False"
| "float_le PosInf NaN = False"
| "float_le NegInf NaN = False"
| "float_le NegInf (Finite q) = True"
| "float_le NegInf NegZero = True"
| "float_le NegInf PosInf = True"
| "float_le NegInf NegInf = True"
| "float_le (Finite p) PosInf = True"
| "float_le NegZero PosInf = True"
| "float_le PosInf PosInf = True"
| "float_le PosInf (Finite q) = False"
| "float_le PosInf NegZero = False"
| "float_le PosInf NegInf = False"
| "float_le (Finite p) NegInf = False"
| "float_le NegZero NegInf = False"
| "float_le (Finite p) (Finite q) = (p \<le> q)"
| "float_le (Finite p) NegZero = (p \<le> 0)"
| "float_le NegZero (Finite q) = (0 \<le> q)"
| "float_le NegZero NegZero = True"

text \<open>\<open>a <= b\<close> and \<open>a < b\<close> on floats; \<open>x >= y\<close> of the source is \<open>y \<le> x\<close>.\<close>

instantiation pyfloat :: ord
begin

definition less_eq_pyfloat :: "pyfloat \<Rightarrow> pyfloat \<Rightarrow> bool" where
  "less_eq_pyfloat a b = float_le a b"

definition less_pyfloat :: "pyfloat \<Rightarrow> pyfloat \<Rightarrow> bool" where
  "less_pyfloat a b = (float_le a b \<and> \<not> float_le b a)"

instance ..

end

text \<open>Round half to even of a non-negative rational.\<close>

definition round_half_even :: "rat \<Rightarrow> nat" where
  "round_half_even q =
     (let f = \<lfloor>q\<rfloor>; r = q - of_int f
      in nat (if r < 1 / 2 then f else if 1 / 2 < r then f + 1
              else if even f then f else f + 1))"

text \<open>\<open>int.bit_length\<close>: the number of binary digits of a natural number.\<close>

fun bit_length :: "nat \<Rightarrow> nat" where
  "bit_length n = (if n = 0 then 0 else Suc (bit_length (n div 2)))"

declare bit_length.simps [simp del]

text \<open>The exponent \<open>e\<close> with \<open>2 ^ e \<le> x < 2 ^ (e + 1)\<close>, for a positive \<open>x\<close>.\<close>

definition binade :: "rat \<Rightarrow> int" where
  "binade x = (if 1 \<le> x then int (bit_length (nat \<lfloor>x\<rfloor>)) - 1
               else - int (bit_length (nat (\<lceil>1 / x\<rceil> - 1))))"

definition pow2 :: "int \<Rightarrow> rat" where
  "pow2 e = (if 0 \<le> e then 2 ^ nat e else 1 / 2 ^ nat (- e))"

text \<open>
  The binary64 number nearest to a rational, ties to even: 53 significant bits from
  the exponent \<open>- 1022\<close> on, multiples of \<open>2 ^ - 1074\<close> below, an infinity from
  \<open>2 ^ 1024\<close> on. What rounds to zero keeps its sign.
\<close>

definition round_double :: "rat \<Rightarrow> pyfloat" where
  "round_double x =
     (if x = 0 then Finite 0
      else let e = max (binade \<bar>x\<bar>) (- 1022);
               u = pow2 (e - 52);
               y = of_nat (round_half_even (\<bar>x\<bar> / u)) * u
           in if pow2 1024 \<le> y then (if x < 0 then NegInf else PosInf)
              else if y = 0 then (if x < 0 then NegZero else Finite 0)
              else Finite (if x < 0 then - y else y))"

fun float_neg :: "pyfloat \<Rightarrow> pyfloat" where
  "float_neg (Finite q) = (if q = 0 then NegZero else Finite (- q))"
| "float_neg NegZero = Finite 0"
| "float_neg PosInf = NegInf"
| "float_neg NegInf = PosInf"
| "float_neg NaN = NaN"

text \<open>\<open>a + b\<close>: an exact sum of zero is the positive zero unless both are negative zeros.\<close>

fun float_add :: "pyfloat \<Rightarrow> pyfloat \<Rightarrow> pyfloat" where
  "float_add NaN b = NaN"
| "float_add (Finite p) NaN = NaN"
| "float_add NegZero NaN = NaN"
| "float_add PosInf NaN = NaN"
| "float_add NegInf NaN = NaN"
| "float_add PosInf NegInf = NaN"
| "float_add NegInf PosInf = NaN"
| "float_add PosInf PosInf = PosInf"
| "float_add PosInf (Finite q) = PosInf"
| "float_add PosInf NegZero = PosInf"
| "float_add (Finite p) PosInf = PosInf"
| "float_add NegZero PosInf = PosInf"
| "float_add NegInf NegInf = NegInf"
| "float_add NegInf (Finite q) = NegInf"
| "float_add NegInf NegZero = NegInf"
| "float_add (Finite p) NegInf = NegInf"
| "float_add NegZero NegInf = NegInf"
| "float_add NegZero NegZero = NegZero"
| "float_add NegZero (Finite q) = Finite q"
| "float_add (Finite p) NegZero = Finite p"
| "float_add (Finite p) (Finite q) = round_double (p + q)"

text \<open>\<open>a - b\<close>.\<close>

definition float_sub :: "pyfloat \<Rightarrow> pyfloat \<Rightarrow> pyfloat" where
  "float_sub a b = float_add a (float_neg b)"

text \<open>\<open>a / 2\<close>.\<close>

fun float_half :: "pyfloat \<Rightarrow> pyfloat" where
  "float_half (Finite q) = round_double (q / 2)"
| "float_half NegZero = NegZero"
| "float_half PosInf = PosInf"
| "float_half NegInf = NegInf"
| "float_half NaN = NaN"

subsection \<open>String primitives of Python\<close>

definition is_digit :: "char \<Rightarrow> bool" where
  "is_digit c = (48 \<le> (of_char c :: nat) \<and> (of_char c :: nat) \<le> 57)"

definition digit_char :: "nat \<Rightarrow> char" where
  "digit_char d = char_of (48 + d)"

definition digit_val :: "char \<Rightarrow> nat" where
  "digit_val c = of_char c - 48"

text \<open>A non-empty string of the digits \<open>0\<close> to \<open>9\<close>.\<close>

definition all_digits :: "string \<Rightarrow> bool" where
  "all_digits s = (s \<noteq> [] \<and> list_all is_digit s)"

text \<open>
  \<open>str.isdigit()\<close>: non-empty and every character a digit. Besides \<open>0\<close> to \<open>9\<close>, the
  superscripts two, three and one (code points 178, 179, 185) are digits for it.
\<close>

definition is_unicode_digit :: "char \<Rightarrow> bool" where
  "is_unicode_digit c =
     (is_digit c \<or> (of_char c :: nat) = 178 \<or> (of_char c :: nat) = 179 \<or> (of_char c :: nat) = 185)"

definition isdigit :: "string \<Rightarrow> bool" where
  "isdigit s = (s \<noteq> [] \<and> list_all is_unicode_digit s)"

text \<open>\<open>str(n)\<close> for a non-negative integer.\<close>

fun str_nat :: "nat \<Rightarrow> string" where
  "str_nat n = (if n < 10 then [digit_char n] else str_nat (n div 10) @ [digit_char (n mod 10)])"

declare str_nat.simps [simp del]

definition nat_of_digits :: "string \<Rightarrow> nat" where
  "nat_of_digits s = foldl (\<lambda>a c. 10 * a + digit_val c) 0 s"

text \<open>\<open>str(i)\<close> of an integer, as \<open>{epoch}\<close> in an f-string prints it.\<close>

definition str_int :: "int \<Rightarrow> string" where
  "str_int i = (if i < 0 then CHR ''-'' # str_nat (nat (- i)) else str_nat (nat i))"

text \<open>\<open>{i:02d}\<close>: zero-padded to width 2, the sign counted in the width.\<close>

definition fmt_02d :: "int \<Rightarrow> string" where
  "fmt_02d i = (if i < 0 then CHR ''-'' # str_nat (nat (- i))
                else if i < 10 then CHR ''0'' # str_nat (nat i)
                else str_nat (nat i))"

text \<open>\<open>s.split(c)\<close>: one more piece than occurrences of \<open>c\<close>, never the empty list.\<close>

fun split_on :: "char \<Rightarrow> string \<Rightarrow> string list" where
  "split_on c [] = [[]]"
| "split_on c (x # xs) =
     (if x = c then [] # split_on c xs
      else (case split_on c xs of [] \<Rightarrow> [[x]] | p # ps \<Rightarrow> (x # p) # ps))"

text \<open>\<open>c.join(ps)\<close>.\<close>

fun join_with :: "char \<Rightarrow> string list \<Rightarrow> string" where
  "join_with c [] = []"
| "join_with c [p] = p"
| "join_with c (p # q # ps) = p @ c # join_with c (q # ps)"

text \<open>
  The white space that \<open>int\<close> and \<open>float\<close> remove on both ends: tab to carriage return,
  the space, and the code points 133 and 160.
\<close>

definition is_space :: "char \<Rightarrow> bool" where
  "is_space c =
     ((9 \<le> (of_char c :: nat) \<and> (of_char c :: nat) \<le> 13) \<or> (of_char c :: nat) = 32
      \<or> (of_char c :: nat) = 133 \<or> (of_char c :: nat) = 160)"

definition strip_space :: "string \<Rightarrow> string" where
  "strip_space s = rev (dropWhile is_space (rev (dropWhile is_space s)))"

text \<open>The sign in front of a literal, and what follows it.\<close>

definition split_sign :: "string \<Rightarrow> bool \<times> string" where
  "split_sign s =
     (case s of
        [] \<Rightarrow> (False, [])
      | c # r \<Rightarrow> if c = CHR ''-'' then (True, r) else if c = CHR ''+'' then (False, r)
                 else (False, s))"

text \<open>
  \<open>int(s)\<close> in base 10: white space on both ends, an optional sign, then groups of
  digits separated by single underscores; anything else raises ValueError. (The limit
  on the number of digits, 4300 since Python 3.11, is beyond the length of a file name.)
\<close>

definition py_int :: "string \<Rightarrow> py_error + int" where
  "py_int s =
     (let (neg, body) = split_sign (strip_space s);
          groups = split_on CHR ''_'' body
      in if list_all all_digits groups
         then Inr (if neg then - int (nat_of_digits (concat groups))
                   else int (nat_of_digits (concat groups)))
         else Inl ValueError)"

text \<open>
  The check of \<open>float\<close> on underscores, over the whole string: one is allowed only
  after a digit and before a digit. \<open>prev\<close> is the character before.
\<close>

fun underscores_ok :: "char \<Rightarrow> string \<Rightarrow> bool" where
  "underscores_ok prev [] = (prev \<noteq> CHR ''_'')"
| "underscores_ok prev (c # cs) =
     ((if c = CHR ''_'' then is_digit prev else \<not> (prev = CHR ''_'' \<and> \<not> is_digit c))
      \<and> underscores_ok c cs)"

definition to_lower :: "char \<Rightarrow> char" where
  "to_lower c = (if 65 \<le> (of_char c :: nat) \<and> (of_char c :: nat) \<le> 90
                 then char_of ((of_char c :: nat) + 32) else c)"

definition pow10 :: "int \<Rightarrow> rat" where
  "pow10 e = (if 0 \<le> e then 10 ^ nat e else 1 / 10 ^ nat (- e))"

text \<open>What follows the mantissa: nothing, or \<open>e\<close>, an optional sign and digits.\<close>

definition exponent_part :: "string \<Rightarrow> int option" where
  "exponent_part r =
     (case r of
        [] \<Rightarrow> Some 0
      | c # r1 \<Rightarrow>
          if c = CHR ''e'' \<or> c = CHR ''E'' then
            (let (neg, ds) = split_sign r1
             in if all_digits ds
                then Some (if neg then - int (nat_of_digits ds) else int (nat_of_digits ds))
                else None)
          else None)"

text \<open>
  The exact value of an unsigned decimal literal: digits, optionally a point and
  digits, at least one digit in all, optionally an exponent.
\<close>

definition decimal_value :: "string \<Rightarrow> rat option" where
  "decimal_value r =
     (let ip = takeWhile is_digit r;
          r1 = dropWhile is_digit r;
          has_point = (r1 \<noteq> [] \<and> hd r1 = CHR ''.'');
          fp = (if has_point then takeWhile is_digit (tl r1) else []);
          r2 = (if has_point then dropWhile is_digit (tl r1) else r1)
      in if ip = [] \<and> fp = [] then None
         else (case exponent_part r2 of
                 None \<Rightarrow> None
               | Some ex \<Rightarrow>
                   Some ((of_nat (nat_of_digits ip) + of_nat (nat_of_digits fp) / 10 ^ length fp)
                         * pow10 ex)))"

text \<open>
  \<open>float(s)\<close>: the underscores checked and removed, white space removed on both ends,
  an optional sign, then \<open>inf\<close>, \<open>infinity\<close> or \<open>nan\<close> in any case, or a decimal
  literal, whose value is rounded to the nearest float.
\<close>

definition py_float :: "string \<Rightarrow> py_error + pyfloat" where
  "py_float s =
     (if \<not> underscores_ok (CHR 0x00) s then Inl ValueError
      else
        (let (neg, r) = split_sign (strip_space (filter (\<lambda>c. c \<noteq> CHR ''_'') s))
         in if map to_lower r = ''inf'' \<or> map to_lower r = ''infinity''
            then Inr (if neg then NegInf else PosInf)
            else if map to_lower r = ''nan'' then Inr NaN
            else (case decimal_value r of
                    None \<Rightarrow> Inl ValueError
                  | Some q \<Rightarrow> Inr (if neg then float_neg (round_double q) else round_double q))))"

definition pad5 :: "nat \<Rightarrow> string" where
  "pad5 k = replicate (5 - length (str_nat k)) CHR ''0'' @ str_nat k"

text \<open>\<open>{a:.5f}\<close>: sign, integer part, point, five decimals.\<close>

definition fmt_fixed5 :: "rat \<Rightarrow> string" where
  "fmt_fixed5 a =
     (let m = round_half_even (\<bar>a\<bar> * 100000)
      in (if a < 0 then ''-'' else []) @ str_nat (m div 100000) @ ''.'' @ pad5 (m mod 100000))"

fun fmt_5f :: "pyfloat \<Rightarrow> string" where
  "fmt_5f (Finite q) = fmt_fixed5 q"
| "fmt_5f NegZero = ''-0.00000''"
| "fmt_5f PosInf = ''inf''"
| "fmt_5f NegInf = ''-inf''"
| "fmt_5f NaN = ''nan''"

definition endswith :: "string \<Rightarrow> string \<Rightarrow> bool" where
  "endswith s suf = (length suf \<le> length s \<and> drop (length s - length suf) s = suf)"

text \<open>
  \<open>PurePath.suffix\<close> and \<open>PurePath.stem\<close> of a final component: with \<open>i\<close> the last
  position of a point, the suffix is \<open>name[i:]\<close> when \<open>0 < i < len(name) - 1\<close> and empty
  otherwise; the stem is what is left.
\<close>

definition path_suffix :: "string \<Rightarrow> string" where
  "path_suffix name =
     (let ext = rev (takeWhile (\<lambda>c. c \<noteq> CHR ''.'') (rev name))
      in if CHR ''.'' \<in> set name \<and> ext \<noteq> [] \<and> length ext + 1 < length name
         then CHR ''.'' # ext else [])"

definition path_stem :: "string \<Rightarrow> string" where
  "path_stem name = take (length name - length (path_suffix name)) name"

text \<open>Python list indexing with a non-negative index.\<close>

definition nth_py :: "'a list \<Rightarrow> nat \<Rightarrow> py_error + 'a" where
  "nth_py xs i = (if i < length xs then Inr (xs ! i) else Inl IndexError)"

subsection \<open>Records of the registry\<close>

text \<open>
  The \<open>filepath\<close> column holds a \<open>Path\<close> object for a row decoded from disk and a
  \<open>str\<close> for the appended candidate (\<open>str(new_model_path)\<close>); Python never finds a
  \<open>Path\<close> equal to a \<open>str\<close>.
\<close>

datatype path_val = PathObj string | PathStr string

fun path_name :: "path_val \<Rightarrow> string" where
  "path_name (PathObj s) = s"
| "path_name (PathStr s) = s"

record model_info =
  filepath :: path_val
  filename :: string
  basefilename :: "string option"
  segment_subject :: string
  traindata_version :: int
  model_architecture :: string
  hyperparams_version :: int
  acc_combined :: pyfloat
  acc_train :: pyfloat
  acc_val :: pyfloat
  epoch :: int
  save_format :: string

subsection \<open>Filename codec\<close>

definition format_model_basefilename :: "string \<Rightarrow> int \<Rightarrow> string \<Rightarrow> int \<Rightarrow> string" where
  "format_model_basefilename subj tv arch hv =
     (let filename = subj @ ''_'' @ fmt_02d tv @ ''_'' @ arch
      in if hv > 0 then filename @ ''+'' @ fmt_02d hv else filename)"

definition format_model_filename ::
  "string \<Rightarrow> int \<Rightarrow> string \<Rightarrow> int \<Rightarrow> pyfloat \<Rightarrow> pyfloat \<Rightarrow> pyfloat \<Rightarrow> int \<Rightarrow> string
     \<Rightarrow> string" where
  "format_model_filename subj tv arch hv a_train a_val a_combined ep sf =
     (let filename = format_model_basefilename subj tv arch hv
            @ ''_'' @ fmt_5f a_combined @ ''_'' @ fmt_5f a_train @ ''_'' @ fmt_5f a_val
            @ ''_'' @ str_int ep
      in if sf = ''tf'' then filename @ ''_tf'' else filename @ ''.hdf5'')"

text \<open>A directory entry: its final component and whether it is a directory.\<close>

record entry =
  name :: string
  is_dir :: bool

text \<open>Exception propagation for the sequence of reads in the decoder.\<close>

definition bind_err :: "py_error + 'a \<Rightarrow> ('a \<Rightarrow> py_error + 'b) \<Rightarrow> py_error + 'b" where
  "bind_err r f = (case r of Inl e \<Rightarrow> Inl e | Inr v \<Rightarrow> f v)"

text \<open>
  The part of \<open>parse_model_filename\<close> after the suffix checks. The check on the number
  of fields only logs a warning: nothing is returned there, and the reads go on.
\<close>

definition parse_fields :: "path_val \<Rightarrow> string \<Rightarrow> string \<Rightarrow> py_error + model_info option" where
  "parse_fields fp fname sf =
     (let param_values = split_on CHR ''_'' fname
      in bind_err (nth_py param_values 0) (\<lambda>subj.
         bind_err (nth_py param_values 1) (\<lambda>tv_s.
         bind_err (py_int tv_s) (\<lambda>tv.
         bind_err (nth_py param_values 2) (\<lambda>model_train_info.
         let model_train_info_values = split_on CHR ''+'' model_train_info
         in bind_err
              (if isdigit (last model_train_info_values)
               then bind_err (py_int (last model_train_info_values)) (\<lambda>hv.
                      Inr (hv, join_with CHR ''+'' (butlast model_train_info_values)))
               else Inr (0, model_train_info))
              (\<lambda>(hv, arch).
            bind_err
              (if length param_values > 3
               then bind_err (nth_py param_values 3) (\<lambda>s3.
                    bind_err (py_float s3) (\<lambda>a_c.
                    bind_err (nth_py param_values 4) (\<lambda>s4.
                    bind_err (py_float s4) (\<lambda>a_t.
                    bind_err (nth_py param_values 5) (\<lambda>s5.
                    bind_err (py_float s5) (\<lambda>a_v.
                    bind_err (nth_py param_values 6) (\<lambda>s6.
                    bind_err (py_int s6) (\<lambda>ep. Inr (a_c, a_t, a_v, ep)))))))))
               else Inr (Finite 0, Finite 0, Finite 0, 0))
              (\<lambda>(a_c, a_t, a_v, ep).
                 Inr (Some \<lparr> filepath = fp, filename = fname,
                            basefilename = Some (format_model_basefilename subj tv arch hv),
                            segment_subject = subj, traindata_version = tv,
                            model_architecture = arch, hyperparams_version = hv,
                            acc_combined = a_c, acc_train = a_t, acc_val = a_v,
                            epoch = ep, save_format = sf \<rparr>))))))))"

definition parse_model_filename :: "entry \<Rightarrow> py_error + model_info option" where
  "parse_model_filename p =
     (if is_dir p then
        (if \<not> endswith (name p) ''_tf'' then Inr None
         else parse_fields (PathObj (name p)) (name p) ''tf'')
      else
        (if path_suffix (name p) = ''.h5'' \<or> path_suffix (name p) = ''.hdf5''
         then parse_fields (PathObj (name p)) (path_stem (name p)) ''h5''
         else Inr None))"

subsection \<open>Registry scanner\<close>

type_synonym directory = "entry list"

text \<open>\<open>model_dir.glob('*' + suf)\<close>: the entries whose name ends with \<open>suf\<close>, in listing order.\<close>

definition glob_suffix :: "directory \<Rightarrow> string \<Rightarrow> entry list" where
  "glob_suffix d suf = filter (\<lambda>e. endswith (name e) suf) d"

text \<open>
  The loop of \<open>get_models\<close> over the listed paths: an entry that decodes to \<open>None\<close> is
  left out, an exception of the decoder is not caught and ends the scan.
\<close>

fun parse_all :: "entry list \<Rightarrow> py_error + model_info list" where
  "parse_all [] = Inr []"
| "parse_all (p # ps) =
     (case parse_model_filename p of
        Inl e \<Rightarrow> Inl e
      | Inr r \<Rightarrow>
          (case parse_all ps of
             Inl e \<Rightarrow> Inl e
           | Inr ms \<Rightarrow> Inr (case r of None \<Rightarrow> ms | Some m \<Rightarrow> m # ms)))"

definition scan :: "directory \<Rightarrow> py_error + model_info list" where
  "scan model_dir =
     parse_all (glob_suffix model_dir ''.hdf5'' @ glob_suffix model_dir ''.h5''
                @ glob_suffix model_dir ''_tf'')"

definition opt_filter :: "'a option \<Rightarrow> (model_info \<Rightarrow> 'a) \<Rightarrow> model_info list \<Rightarrow> model_info list" where
  "opt_filter v f df = (case v of None \<Rightarrow> df | Some x \<Rightarrow> filter (\<lambda>m. f m = x) df)"

text \<open>Arguments in the order of the source: subject, architecture, data version, hyperparameter version.\<close>

definition get_models ::
  "directory \<Rightarrow> string option \<Rightarrow> string option \<Rightarrow> int option \<Rightarrow> int option
     \<Rightarrow> py_error + model_info list" where
  "get_models model_dir subj arch tv hv =
     (case scan model_dir of
        Inl e \<Rightarrow> Inl e
      | Inr df \<Rightarrow>
          Inr (opt_filter hv hyperparams_version
                (opt_filter tv traindata_version
                  (opt_filter arch model_architecture
                    (opt_filter subj segment_subject df)))))"

definition get_max_data_version :: "directory \<Rightarrow> py_error + int" where
  "get_max_data_version model_dir =
     (case get_models model_dir None None None None of
        Inl e \<Rightarrow> Inl e
      | Inr df \<Rightarrow>
          (case df of
             [] \<Rightarrow> Inr (- 1)
           | m # ms \<Rightarrow> Inr (fold max (map traindata_version ms) (traindata_version m))))"

text \<open>
  \<open>argmax\<close> of numpy: the first row among those of maximal \<open>acc_combined\<close>; the
  first row with a NaN, if there is one.
\<close>

fun argmax_first :: "model_info \<Rightarrow> model_info list \<Rightarrow> model_info" where
  "argmax_first b [] = b"
| "argmax_first b (m # ms) =
     argmax_first (if \<not> is_nan (acc_combined b) \<and> \<not> acc_combined m \<le> acc_combined b
                   then m else b) ms"

text \<open>Arguments in the order of the source: subject, data version, architecture, hyperparameter version.\<close>

definition get_best_model ::
  "directory \<Rightarrow> string option \<Rightarrow> int option \<Rightarrow> string option \<Rightarrow> int option
     \<Rightarrow> py_error + model_info option" where
  "get_best_model model_dir subj tv arch hv =
     (case get_models model_dir subj arch tv hv of
        Inl e \<Rightarrow> Inl e
      | Inr df0 \<Rightarrow>
          bind_err
            (case tv of
               Some _ \<Rightarrow> Inr (Some df0)
             | None \<Rightarrow>
                 (case get_max_data_version model_dir of
                    Inl e \<Rightarrow> Inl e
                  | Inr max_data_version \<Rightarrow>
                      if max_data_version = - 1 then Inr None
                      else Inr (Some (filter (\<lambda>m. traindata_version m = max_data_version) df0))))
            (\<lambda>r. case r of
                   None \<Rightarrow> Inr None
                 | Some df \<Rightarrow> (case df of [] \<Rightarrow> Inr None | m # ms \<Rightarrow> Inr (Some (argmax_first m ms)))))"

subsection \<open>Ranking\<close>

definition better_ones :: "bool \<Rightarrow> model_info list \<Rightarrow> model_info \<Rightarrow> model_info list" where
  "better_ones best_only df m =
     (if best_only
      then filter (\<lambda>x. filepath x \<noteq> filepath m \<and> acc_combined m \<le> acc_combined x) df
      else filter (\<lambda>x. filepath x \<noteq> filepath m \<and> acc_combined m \<le> acc_combined x
                       \<and> acc_train m \<le> acc_train x \<and> acc_val m \<le> acc_val x) df)"

definition keep_model :: "bool \<Rightarrow> model_info list \<Rightarrow> model_info \<Rightarrow> bool" where
  "keep_model best_only df m = (\<not> 0 < length (better_ones best_only df m))"

subsection \<open>Retention cycle\<close>

record sacm_args =
  arg_segment_subject :: string
  arg_traindata_version :: int
  arg_model_architecture :: string
  arg_hyperparams_version :: int
  monitor_metric_mode :: string
  new_model :: bool
  new_model_monitor_train :: "pyfloat option"
  new_model_monitor_val :: "pyfloat option"
  new_model_epoch :: "int option"
  arg_save_format :: string
  save_best_only :: bool
  save_weights_only :: bool
  model_template_for_save :: bool
  verbose :: bool
  debug :: bool
  only_report :: bool

text \<open>
  The three stored scores of a candidate: combined, train, validation. The source
  computes \<open>(t + v) / 2\<close> and \<open>1 - x\<close> on floats; the integer \<open>1\<close> is the float
  \<open>Finite 1\<close> there.
\<close>

definition new_model_accs :: "string \<Rightarrow> pyfloat \<Rightarrow> pyfloat \<Rightarrow> pyfloat \<times> pyfloat \<times> pyfloat" where
  "new_model_accs mode t v =
     (let new_model_monitor_combined = float_half (float_add t v)
      in if mode = ''max'' then (new_model_monitor_combined, t, v)
         else (float_sub (Finite 1) new_model_monitor_combined,
               float_sub (Finite 1) t, float_sub (Finite 1) v))"

text \<open>The row appended for the candidate; it has no \<open>basefilename\<close>.\<close>

definition new_model_row :: "sacm_args \<Rightarrow> pyfloat \<Rightarrow> pyfloat \<Rightarrow> int \<Rightarrow> model_info" where
  "new_model_row a t v ep =
     (let (a_c, a_t, a_v) = new_model_accs (monitor_metric_mode a) t v;
          new_model_filename =
            format_model_filename (arg_segment_subject a) (arg_traindata_version a)
              (arg_model_architecture a) (arg_hyperparams_version a) a_t a_v a_c ep
              (arg_save_format a)
      in \<lparr> filepath = PathStr new_model_filename, filename = new_model_filename,
           basefilename = None,
           segment_subject = arg_segment_subject a,
           traindata_version = arg_traindata_version a,
           model_architecture = arg_model_architecture a,
           hyperparams_version = arg_hyperparams_version a,
           acc_combined = a_c, acc_train = a_t, acc_val = a_v,
           epoch = ep, save_format = arg_save_format a \<rparr>)"

text \<open>
  What the cycle does to the directory, in order. The flag of a save tells whether
  \<open>model_template_for_save\<close> was the source.
\<close>

datatype action = SaveWeights string bool | SaveModel string bool | Rmtree string | Unlink string

definition path_exists :: "directory \<Rightarrow> string \<Rightarrow> bool" where
  "path_exists d p = (p \<in> set (map name d))"

definition path_is_dir :: "directory \<Rightarrow> string \<Rightarrow> bool" where
  "path_is_dir d p = list_ex (\<lambda>e. name e = p \<and> is_dir e) d"

definition remove_path :: "directory \<Rightarrow> string \<Rightarrow> directory" where
  "remove_path d p = filter (\<lambda>e. name e \<noteq> p) d"

text \<open>
  Modelled from the spec: the save operations of the Keras model, which are not part
  of this module. \<open>persist\<close> creates a single file or a directory tree at the
  destination: a directory for the format \<open>tf\<close>, a file otherwise.
\<close>

definition persist :: "sacm_args \<Rightarrow> directory \<Rightarrow> string \<Rightarrow> directory" where
  "persist a d p = d @ [\<lparr> name = p, is_dir = (arg_save_format a = ''tf'') \<rparr>]"

definition save_action :: "sacm_args \<Rightarrow> string \<Rightarrow> action" where
  "save_action a p =
     (if save_weights_only a then SaveWeights p (model_template_for_save a)
      else SaveModel p (model_template_for_save a))"

text \<open>The body of the loop over the sorted rows, for one row.\<close>

definition process_model ::
  "sacm_args \<Rightarrow> string option \<Rightarrow> model_info list \<Rightarrow> model_info
     \<Rightarrow> directory \<times> action list \<Rightarrow> directory \<times> action list" where
  "process_model a new_model_path df m st =
     (let d = fst st; tr = snd st; p = path_name (filepath m)
      in if keep_model (save_best_only a) df m then
           (if new_model_path \<noteq> None \<and> \<not> only_report a
               \<and> Some (filepath m) = map_option PathStr new_model_path
               \<and> \<not> path_exists d p
            then (persist a d p, tr @ [save_action a p])
            else (d, tr))
         else if only_report a then (d, tr)
         else if path_exists d p then
           (if path_is_dir d p then (remove_path d p, tr @ [Rmtree p])
            else (remove_path d p, tr @ [Unlink p]))
         else (d, tr))"

definition clean_loop ::
  "sacm_args \<Rightarrow> string option \<Rightarrow> model_info list \<Rightarrow> model_info list
     \<Rightarrow> directory \<times> action list \<Rightarrow> directory \<times> action list" where
  "clean_loop a new_model_path df sorted_df st = fold (process_model a new_model_path df) sorted_df st"

text \<open>
  \<open>sort_values(by='acc_combined', ascending=False)\<close> sorts with the default,
  unstable quicksort of numpy: the order among equal keys is not fixed; the rows with
  a NaN come last. The sort is therefore a parameter of the cycle; \<open>sorts_descending\<close>
  is all the cycle may assume of it, and \<open>sort_values_stable\<close> is one instance.
\<close>

definition descending :: "pyfloat \<Rightarrow> pyfloat \<Rightarrow> bool" where
  "descending a b = (is_nan b \<or> (\<not> is_nan a \<and> b \<le> a))"

definition sorts_descending :: "(model_info list \<Rightarrow> model_info list) \<Rightarrow> bool" where
  "sorts_descending srt =
     (\<forall>df. mset (srt df) = mset df
           \<and> sorted_wrt (\<lambda>x y. descending (acc_combined x) (acc_combined y)) (srt df))"

text \<open>The position of a float in the descending order: infinity, finite values, NaN.\<close>

fun sort_rank :: "pyfloat \<Rightarrow> int \<times> rat" where
  "sort_rank PosInf = (- 1, 0)"
| "sort_rank (Finite q) = (0, - q)"
| "sort_rank NegZero = (0, 0)"
| "sort_rank NegInf = (1, 0)"
| "sort_rank NaN = (2, 0)"

definition sort_values_stable :: "model_info list \<Rightarrow> model_info list" where
  "sort_values_stable df = sort_key (\<lambda>m. sort_rank (acc_combined m)) df"

text \<open>
  One retention cycle. The result is the exception raised, if any, the directory
  afterwards and the actions performed. An empty scan gives a frame without columns:
  unless a candidate is appended, sorting it by \<open>acc_combined\<close> raises KeyError.
\<close>

definition save_and_clean_models ::
  "(model_info list \<Rightarrow> model_info list) \<Rightarrow> directory \<Rightarrow> sacm_args
     \<Rightarrow> py_error option \<times> directory \<times> action list" where
  "save_and_clean_models sort_values model_save_dir a =
     (if monitor_metric_mode a \<noteq> ''min'' \<and> monitor_metric_mode a \<noteq> ''max''
      then (Some ConfigError, model_save_dir, [])
      else if arg_save_format a \<noteq> ''h5'' \<and> arg_save_format a \<noteq> ''tf''
      then (Some ConfigError, model_save_dir, [])
      else
        (case get_models model_save_dir (Some (arg_segment_subject a))
                (Some (arg_model_architecture a)) (Some (arg_traindata_version a))
                (Some (arg_hyperparams_version a)) of
           Inl e \<Rightarrow> (Some e, model_save_dir, [])
         | Inr existing \<Rightarrow>
             if new_model a \<and> (new_model_monitor_train a = None \<or> new_model_monitor_val a = None
                               \<or> new_model_epoch a = None)
             then (Some MetricsMissing, model_save_dir, [])
             else if \<not> new_model a \<and> scan model_save_dir = Inr []
             then (Some KeyError, model_save_dir, [])
             else
               (let cand = (if new_model a
                            then Some (new_model_row a (the (new_model_monitor_train a))
                                         (the (new_model_monitor_val a)) (the (new_model_epoch a)))
                            else None);
                    new_model_path = map_option filename cand;
                    model_info_df = existing @ (case cand of None \<Rightarrow> [] | Some r \<Rightarrow> [r]);
                    st = clean_loop a new_model_path model_info_df (sort_values model_info_df)
                           (model_save_dir, [])
                in if verbose a \<or> debug a
                   then (case get_best_model (fst st) (Some (arg_segment_subject a))
                                (Some (arg_traindata_version a)) (Some (arg_model_architecture a)) None of
                           Inl e \<Rightarrow> (Some e, fst st, snd st)
                         | Inr _ \<Rightarrow> (None, fst st, snd st))
                   else (None, fst st, snd st))))"

subsection \<open>Example directories and calls\<close>

text \<open>
  The identity \<open>roads\<close>, data version 1, architecture \<open>unet\<close>, no hyperparameter
  version; format \<open>h5\<close>, pareto policy, no candidate, no report.
\<close>

definition roads_args :: sacm_args where
  "roads_args =
     \<lparr> arg_segment_subject = ''roads'', arg_traindata_version = 1,
       arg_model_architecture = ''unet'', arg_hyperparams_version = 0,
       monitor_metric_mode = ''max'', new_model = False,
       new_model_monitor_train = None, new_model_monitor_val = None,
       new_model_epoch = None, arg_save_format = ''h5'', save_best_only = False,
       save_weights_only = False, model_template_for_save = False,
       verbose = False, debug = False, only_report = False \<rparr>"

definition roads_row ::
  "string \<Rightarrow> string \<Rightarrow> pyfloat \<Rightarrow> pyfloat \<Rightarrow> pyfloat \<Rightarrow> int \<Rightarrow> model_info" where
  "roads_row fname stem a_c a_t a_v ep =
     \<lparr> filepath = PathObj fname, filename = stem, basefilename = Some ''roads_01_unet'',
       segment_subject = ''roads'', traindata_version = 1, model_architecture = ''unet'',
       hyperparams_version = 0, acc_combined = a_c, acc_train = a_t, acc_val = a_v,
       epoch = ep, save_format = ''h5'' \<rparr>"

text \<open>
  Two models of epochs 5 and 6 with the same three accuracies. An accuracy read from
  a name is the float nearest to the decimal written there.
\<close>

definition tie_5 :: model_info where
  "tie_5 = roads_row ''roads_01_unet_0.80000_0.80000_0.80000_5.hdf5''
             ''roads_01_unet_0.80000_0.80000_0.80000_5'' (round_double (4 / 5))
             (round_double (4 / 5)) (round_double (4 / 5)) 5"

definition tie_6 :: model_info where
  "tie_6 = roads_row ''roads_01_unet_0.80000_0.80000_0.80000_6.hdf5''
             ''roads_01_unet_0.80000_0.80000_0.80000_6'' (round_double (4 / 5))
             (round_double (4 / 5)) (round_double (4 / 5)) 6"

definition dir_tie :: directory where
  "dir_tie =
     [\<lparr> name = ''roads_01_unet_0.80000_0.80000_0.80000_5.hdf5'', is_dir = False \<rparr>,
      \<lparr> name = ''roads_01_unet_0.80000_0.80000_0.80000_6.hdf5'', is_dir = False \<rparr>]"

text \<open>The two models of the scenario of the specification.\<close>

definition scen_hi :: model_info where
  "scen_hi = roads_row ''roads_01_unet_0.80000_0.79000_0.81000_5.hdf5''
               ''roads_01_unet_0.80000_0.79000_0.81000_5'' (round_double (4 / 5))
               (round_double (79 / 100)) (round_double (81 / 100)) 5"

definition scen_lo :: model_info where
  "scen_lo = roads_row ''roads_01_unet_0.75000_0.74000_0.76000_3.hdf5''
               ''roads_01_unet_0.75000_0.74000_0.76000_3'' (round_double (3 / 4))
               (round_double (37 / 50)) (round_double (19 / 25)) 3"

text \<open>
  A directory with a model of another subject at a higher data version, and a
  directory with a file whose stem has a single field.
\<close>

definition fields_v2 :: model_info where
  "fields_v2 =
     \<lparr> filepath = PathObj ''fields_02_unet_0.50000_0.50000_0.50000_1.hdf5'',
       filename = ''fields_02_unet_0.50000_0.50000_0.50000_1'',
       basefilename = Some ''fields_02_unet'',
       segment_subject = ''fields'', traindata_version = 2, model_architecture = ''unet'',
       hyperparams_version = 0, acc_combined = round_double (1 / 2),
       acc_train = round_double (1 / 2), acc_val = round_double (1 / 2),
       epoch = 1, save_format = ''h5'' \<rparr>"

definition dir_versions :: directory where
  "dir_versions =
     [\<lparr> name = ''roads_01_unet_0.80000_0.79000_0.81000_5.hdf5'', is_dir = False \<rparr>,
      \<lparr> name = ''fields_02_unet_0.50000_0.50000_0.50000_1.hdf5'', is_dir = False \<rparr>]"

definition dir_short :: directory where
  "dir_short =
     [\<lparr> name = ''roads_01_unet_0.80000_0.79000_0.81000_5.hdf5'', is_dir = False \<rparr>,
      \<lparr> name = ''model.hdf5'', is_dir = False \<rparr>]"

text \<open>A directory whose only entry has a model suffix and a stem of a single field.\<close>

definition dir_unnamed :: directory where
  "dir_unnamed = [\<lparr> name = ''model.hdf5'', is_dir = False \<rparr>]"

section \<open>Evaluation rules\<close>

lemma str_nat_numeral:
  "str_nat (numeral k) = (if numeral k < (10::nat) then [digit_char (numeral k)]
     else str_nat (numeral k div 10) @ [digit_char (numeral k mod 10)])"
  by (rule str_nat.simps)

lemma digit_char_eval:
  "digit_char 0 = CHR ''0''" "digit_char 1 = CHR ''1''" "digit_char 2 = CHR ''2''"
  "digit_char 3 = CHR ''3''" "digit_char 4 = CHR ''4''" "digit_char 5 = CHR ''5''"
  "digit_char 6 = CHR ''6''" "digit_char 7 = CHR ''7''" "digit_char 8 = CHR ''8''"
  "digit_char 9 = CHR ''9''" "digit_char (Suc 0) = CHR ''1''"
  by (simp_all add: digit_char_def char_of_def bit_0)

lemma str_nat_0: "str_nat 0 = ''0''"
  by (simp add: str_nat.simps [of 0] digit_char_eval)

lemma str_nat_1: "str_nat 1 = ''1''" "str_nat (Suc 0) = ''1''"
  by (simp_all add: str_nat.simps [of 1] str_nat.simps [of "Suc 0"] digit_char_eval)

lemma bit_length_numeral:
  "bit_length (numeral k) = Suc (bit_length (numeral k div 2))"
  by (subst bit_length.simps) simp

lemma bit_length_0: "bit_length 0 = 0"
  by (simp add: bit_length.simps)

lemma bit_length_1: "bit_length 1 = 1" "bit_length (Suc 0) = 1"
  by (simp_all add: bit_length.simps [of 1] bit_length.simps [of "Suc 0"] bit_length_0)

lemma floor_rat_numeral:
  "\<lfloor>numeral a / numeral b :: rat\<rfloor> = numeral a div numeral b"
  "\<lfloor>1 / numeral b :: rat\<rfloor> = 1 div numeral b"
  using floor_divide_of_int_eq [of "numeral a" "numeral b", where ?'a = rat]
    floor_divide_of_int_eq [of 1 "numeral b", where ?'a = rat]
  by simp_all

lemma ceiling_rat_numeral:
  "\<lceil>numeral a / numeral b :: rat\<rceil> = - (- numeral a div numeral b)"
  "\<lceil>1 / numeral b :: rat\<rceil> = - (- 1 div numeral b)"
  using floor_divide_of_int_eq [of "- numeral a" "numeral b", where ?'a = rat]
    floor_divide_of_int_eq [of "- 1" "numeral b", where ?'a = rat]
  by (simp_all add: ceiling_def)

lemmas round_eval = round_double_def binade_def pow2_def round_half_even_def Let_def
  bit_length_numeral bit_length_0 bit_length_1 floor_rat_numeral ceiling_rat_numeral

lemmas number_defs = py_int_def py_float_def split_sign_def strip_space_def is_space_def
  all_digits_def is_digit_def nat_of_digits_def digit_val_def decimal_value_def exponent_part_def
  pow10_def to_lower_def Let_def

lemmas eval_defs = parse_model_filename_def path_suffix_def path_stem_def parse_fields_def
  bind_err_def nth_py_def number_defs isdigit_def is_unicode_digit_def
  format_model_basefilename_def fmt_02d_def endswith_def
  str_nat_numeral str_nat_0 str_nat_1 digit_char_eval

text \<open>The floats nearest to the decimals of the examples.\<close>

lemma round_double_values:
  "round_double (4 / 5) = Finite (3602879701896397 / 4503599627370496)"
  "round_double (79 / 100) = Finite (889460926405673 / 1125899906842624)"
  "round_double (81 / 100) = Finite (1823957849085051 / 2251799813685248)"
  "round_double (3 / 4) = Finite (3 / 4)"
  "round_double (37 / 50) = Finite (3332663724254167 / 4503599627370496)"
  "round_double (19 / 25) = Finite (3422735716801577 / 4503599627370496)"
  "round_double (1 / 2) = Finite (1 / 2)"
  by (simp_all add: round_eval)

lemma parse_tie_5:
  "parse_model_filename
     \<lparr> name = ''roads_01_unet_0.80000_0.80000_0.80000_5.hdf5'', is_dir = False \<rparr>
   = Inr (Some tie_5)"
  by (simp add: eval_defs tie_5_def roads_row_def)

lemma parse_tie_6:
  "parse_model_filename
     \<lparr> name = ''roads_01_unet_0.80000_0.80000_0.80000_6.hdf5'', is_dir = False \<rparr>
   = Inr (Some tie_6)"
  by (simp add: eval_defs tie_6_def roads_row_def)

lemma scan_dir_tie: "scan dir_tie = Inr [tie_5, tie_6]"
  by (simp add: scan_def dir_tie_def glob_suffix_def endswith_def parse_tie_5 parse_tie_6)

lemma tie_fields:
  "filepath tie_5 \<noteq> filepath tie_6" "filepath tie_6 \<noteq> filepath tie_5"
  "acc_combined tie_5 = round_double (4 / 5)" "acc_combined tie_6 = round_double (4 / 5)"
  "acc_train tie_5 = round_double (4 / 5)" "acc_train tie_6 = round_double (4 / 5)"
  "acc_val tie_5 = round_double (4 / 5)" "acc_val tie_6 = round_double (4 / 5)"
  "segment_subject tie_5 = ''roads''" "segment_subject tie_6 = ''roads''"
  "traindata_version tie_5 = 1" "traindata_version tie_6 = 1"
  "model_architecture tie_5 = ''unet''" "model_architecture tie_6 = ''unet''"
  "hyperparams_version tie_5 = 0" "hyperparams_version tie_6 = 0"
  "path_name (filepath tie_5) = ''roads_01_unet_0.80000_0.80000_0.80000_5.hdf5''"
  "path_name (filepath tie_6) = ''roads_01_unet_0.80000_0.80000_0.80000_6.hdf5''"
  by (simp_all add: tie_5_def tie_6_def roads_row_def)

lemma get_models_tie:
  "get_models dir_tie (Some ''roads'') (Some ''unet'') (Some 1) (Some 0) = Inr [tie_5, tie_6]"
  by (simp add: get_models_def scan_dir_tie opt_filter_def tie_fields)

lemma keep_tie: "\<not> keep_model b [tie_5, tie_6] tie_5" "\<not> keep_model b [tie_5, tie_6] tie_6"
  by (simp_all add: keep_model_def better_ones_def tie_fields round_double_values
        less_eq_pyfloat_def)

lemma sort_tie: "sort_values_stable [tie_5, tie_6] = [tie_5, tie_6]"
  by (simp add: sort_values_stable_def tie_fields round_double_values)

lemma scen_fields:
  "filepath scen_hi \<noteq> filepath scen_lo" "filepath scen_lo \<noteq> filepath scen_hi"
  "acc_combined scen_hi = round_double (4 / 5)" "acc_combined scen_lo = round_double (3 / 4)"
  "acc_train scen_hi = round_double (79 / 100)" "acc_train scen_lo = round_double (37 / 50)"
  "acc_val scen_hi = round_double (81 / 100)" "acc_val scen_lo = round_double (19 / 25)"
  by (simp_all add: scen_hi_def scen_lo_def roads_row_def)

section \<open>Strings, digits and numbers\<close>

lemma split_on_not_Nil: "split_on c s \<noteq> []"
  by (induction s) (auto split: list.splits)

lemma split_on_no_sep: "c \<notin> set s \<Longrightarrow> split_on c s = [s]"
  by (induction s) auto

lemma split_on_append: "c \<notin> set a \<Longrightarrow> split_on c (a @ c # b) = a # split_on c b"
  by (induction a) auto

lemma split_on_snoc: "c \<notin> set b \<Longrightarrow> split_on c (a @ c # b) = split_on c a @ [b]"
proof (induction a)
  case Nil
  then show ?case by (simp add: split_on_no_sep)
next
  case (Cons x a)
  then show ?case
    by (cases "split_on c a") (auto simp: split_on_not_Nil)
qed

lemma join_split: "join_with c (split_on c s) = s"
proof (induction s)
  case Nil
  show ?case by simp
next
  case (Cons x s)
  show ?case
  proof (cases "split_on c s")
    case Nil
    then show ?thesis by (simp add: split_on_not_Nil)
  next
    case (Cons p ps)
    with Cons.IH show ?thesis by (cases ps) auto
  qed
qed

lemma is_digit_digit_char: "d < 10 \<Longrightarrow> is_digit (digit_char d)"
  by (simp add: is_digit_def digit_char_def)

lemma digit_val_digit_char: "d < 10 \<Longrightarrow> digit_val (digit_char d) = d"
  by (simp add: digit_val_def digit_char_def)

lemma str_nat_digits: "list_all is_digit (str_nat n)"
proof (induction n rule: str_nat.induct)
  case (1 n)
  show ?case
  proof (cases "n < 10")
    case True
    then show ?thesis by (subst str_nat.simps) (simp add: is_digit_digit_char)
  next
    case False
    with 1 show ?thesis by (subst str_nat.simps) (simp add: is_digit_digit_char)
  qed
qed

lemma str_nat_not_Nil: "str_nat n \<noteq> []"
  by (subst str_nat.simps) simp

lemma nat_of_digits_snoc: "nat_of_digits (s @ [c]) = 10 * nat_of_digits s + digit_val c"
  by (simp add: nat_of_digits_def)

lemma nat_of_digits_str_nat: "nat_of_digits (str_nat n) = n"
proof (induction n rule: str_nat.induct)
  case (1 n)
  show ?case
  proof (cases "n < 10")
    case True
    then show ?thesis
      by (subst str_nat.simps) (simp add: nat_of_digits_def digit_val_digit_char)
  next
    case False
    with 1 show ?thesis
      by (subst str_nat.simps) (simp add: nat_of_digits_snoc digit_val_digit_char)
  qed
qed

lemma all_digits_str_nat: "all_digits (str_nat n)"
  by (simp add: all_digits_def str_nat_digits str_nat_not_Nil)

lemma all_digits_isdigit: "all_digits s \<Longrightarrow> isdigit s"
  by (auto simp: all_digits_def isdigit_def is_unicode_digit_def list_all_iff)

lemma isdigit_str_nat: "isdigit (str_nat n)"
  by (simp add: all_digits_isdigit all_digits_str_nat)

lemma is_digit_not_special:
  "is_digit c \<Longrightarrow> c \<noteq> CHR ''_'' \<and> c \<noteq> CHR ''+'' \<and> c \<noteq> CHR ''.'' \<and> c \<noteq> CHR ''-''"
  by (auto simp: is_digit_def)

lemma digits_no_special:
  assumes "list_all is_digit s"
  shows "CHR ''_'' \<notin> set s" "CHR ''+'' \<notin> set s" "CHR ''.'' \<notin> set s" "CHR ''-'' \<notin> set s"
  using assms is_digit_not_special by (auto simp: list_all_iff)

lemma hd_str_nat_digit: "is_digit (hd (str_nat n))"
  using str_nat_digits [of n] str_nat_not_Nil [of n]
  by (cases "str_nat n") auto

lemma nat_of_digits_zero_Cons: "nat_of_digits (CHR ''0'' # s) = nat_of_digits s"
  by (simp add: nat_of_digits_def digit_val_def)

lemma is_digit_zero: "is_digit CHR ''0''"
  by (simp add: is_digit_def)

lemma fmt_02d_nonneg_digits: "0 \<le> i \<Longrightarrow> all_digits (fmt_02d i)"
  using all_digits_str_nat [of "nat i"]
  by (simp add: fmt_02d_def all_digits_def is_digit_zero)

lemma nat_of_digits_fmt_02d: "0 \<le> i \<Longrightarrow> int (nat_of_digits (fmt_02d i)) = i"
  by (simp add: fmt_02d_def nat_of_digits_zero_Cons nat_of_digits_str_nat)

lemma fmt_02d_no_underscore: "CHR ''_'' \<notin> set (fmt_02d i)"
  using digits_no_special(1) [OF str_nat_digits]
  by (simp add: fmt_02d_def)

lemma fmt_02d_no_plus: "CHR ''+'' \<notin> set (fmt_02d i)"
  using digits_no_special(2) [OF str_nat_digits]
  by (simp add: fmt_02d_def)

lemma str_int_no_underscore: "CHR ''_'' \<notin> set (str_int i)"
  using digits_no_special(1) [OF str_nat_digits]
  by (simp add: str_int_def)

section \<open>Ranking\<close>

text \<open>
  Claim C4. Under the pareto policy, a record \<open>B\<close> of the candidate set is discarded
  whenever another record \<open>A\<close> of the set, with a different filepath, is at least as
  good on the three accuracies and strictly better on one; and whatever is discarded
  has such a record at least as good on the three accuracies.
\<close>

theorem pareto_classification:
  "(\<forall>A\<in>set df. \<forall>B\<in>set df.
      filepath A \<noteq> filepath B \<and> acc_combined B \<le> acc_combined A
      \<and> acc_train B \<le> acc_train A \<and> acc_val B \<le> acc_val A
      \<and> (acc_combined B < acc_combined A \<or> acc_train B < acc_train A \<or> acc_val B < acc_val A)
      \<longrightarrow> \<not> keep_model False df B)
   \<and> (\<forall>B. \<not> keep_model False df B \<longrightarrow>
         (\<exists>A\<in>set df. filepath A \<noteq> filepath B \<and> acc_combined B \<le> acc_combined A
            \<and> acc_train B \<le> acc_train A \<and> acc_val B \<le> acc_val A))"
  by (auto simp: keep_model_def better_ones_def filter_empty_conv)

theorem pareto_classification_witness:
  "\<not> keep_model False [scen_hi, scen_lo] scen_lo
   \<and> (\<exists>A\<in>set [scen_hi, scen_lo]. filepath A \<noteq> filepath scen_lo
         \<and> acc_combined scen_lo \<le> acc_combined A
         \<and> acc_train scen_lo \<le> acc_train A \<and> acc_val scen_lo \<le> acc_val A)"
  using pareto_classification [of "[scen_hi, scen_lo]"]
  by (simp add: scen_fields round_double_values less_eq_pyfloat_def less_pyfloat_def)

text \<open>
  Claim C3. The claim is that records tied at the maximal \<open>acc_combined\<close> all survive
  under the best-only policy. The code compares with \<open>>=\<close>: of the two models of
  \<open>dir_tie\<close>, equal in \<open>acc_combined\<close>, each is discarded because of the other.
\<close>

theorem best_only_discards_exact_ties:
  "scan dir_tie = Inr [tie_5, tie_6]
   \<and> acc_combined tie_5 = acc_combined tie_6 \<and> filepath tie_5 \<noteq> filepath tie_6
   \<and> \<not> keep_model True [tie_5, tie_6] tie_5 \<and> \<not> keep_model True [tie_5, tie_6] tie_6"
  by (simp add: scan_dir_tie keep_model_def better_ones_def tie_fields round_double_values
        less_eq_pyfloat_def)

section \<open>Retention cycle\<close>

text \<open>
  Claim C2. The claim is that a cycle never leaves the directory without a model. On
  \<open>dir_tie\<close>, with no candidate, each of the two tied models is discarded because of the
  other, and the cycle deletes both: the directory is empty afterwards.
\<close>

theorem cycle_deletes_every_tied_model:
  "save_and_clean_models sort_values_stable dir_tie (roads_args \<lparr> save_best_only := True \<rparr>)
   = (None, [], [Unlink ''roads_01_unet_0.80000_0.80000_0.80000_5.hdf5'',
                 Unlink ''roads_01_unet_0.80000_0.80000_0.80000_6.hdf5''])"
  apply (simp add: save_and_clean_models_def roads_args_def get_models_tie scan_dir_tie sort_tie
       clean_loop_def process_model_def keep_tie tie_fields)
  apply (simp add: path_exists_def path_is_dir_def remove_path_def dir_tie_def)
  done

section \<open>Decoder and scanner\<close>

lemma parse_scen_hi:
  "parse_model_filename \<lparr> name = ''roads_01_unet_0.80000_0.79000_0.81000_5.hdf5'', is_dir = False \<rparr> = Inr (Some scen_hi)"
  by (simp add: eval_defs scen_hi_def roads_row_def)

lemma parse_fields_v2:
  "parse_model_filename \<lparr> name = ''fields_02_unet_0.50000_0.50000_0.50000_1.hdf5'', is_dir = False \<rparr> = Inr (Some fields_v2)"
  by (simp add: eval_defs fields_v2_def)

lemma parse_short: "parse_model_filename \<lparr> name = ''model.hdf5'', is_dir = False \<rparr> = Inl IndexError"
  by (simp add: eval_defs)

lemma scan_dir_versions: "scan dir_versions = Inr [scen_hi, fields_v2]"
  by (simp add: scan_def dir_versions_def glob_suffix_def endswith_def parse_scen_hi parse_fields_v2)

lemma scan_dir_short: "scan dir_short = Inl IndexError"
  by (simp add: scan_def dir_short_def glob_suffix_def endswith_def parse_scen_hi parse_short)

text \<open>
  Claim C7. The claim is that a name with a valid model suffix whose stem has fewer
  than three fields is logged and skipped. The code logs the warning and goes on to
  read the fields: \<open>model.hdf5\<close> raises IndexError at the second field, and the scan
  of a directory holding it ends with that exception instead of a listing.
\<close>

theorem short_stem_raises:
  "path_suffix ''model.hdf5'' = ''.hdf5''
   \<and> split_on CHR ''_'' (path_stem ''model.hdf5'') = [''model'']
   \<and> parse_model_filename \<lparr> name = ''model.hdf5'', is_dir = False \<rparr> = Inl IndexError
   \<and> get_models dir_short None None None None = Inl IndexError"
  by (simp add: parse_short get_models_def scan_dir_short path_suffix_def path_stem_def)

text \<open>
  Claim C6. The claim is that a stem of three to six fields decodes with the
  accuracies and the epoch at zero. The code reads the fields 3 to 6 as soon as there
  are more than three: the stem \<open>roads_01_unet_0.5\<close>, of four fields, raises
  IndexError at the fifth.
\<close>

theorem four_fields_raise:
  "split_on CHR ''_'' (path_stem ''roads_01_unet_0.5.hdf5'') = [''roads'', ''01'', ''unet'', ''0.5'']
   \<and> parse_model_filename \<lparr> name = ''roads_01_unet_0.5.hdf5'', is_dir = False \<rparr> = Inl IndexError"
  by (simp add: eval_defs)

lemma parse_unnamed: "scan dir_unnamed = Inl IndexError"
  by (simp add: scan_def dir_unnamed_def glob_suffix_def endswith_def parse_short)

lemma scan_empty_dir: "scan [] = Inr []"
  by (simp add: scan_def glob_suffix_def)

text \<open>
  Claim C10. The claim ends on: \<open>get_best_model\<close> returns "none found", through the
  sentinel \<open>-1\<close>, whenever the directory holds no decodable model at all. It does so on
  the empty directory. On \<open>dir_unnamed\<close>, whose only entry \<open>model.hdf5\<close> is no decodable
  model, the scan of \<open>get_models\<close> raises IndexError, at the first line of
  \<open>get_best_model\<close>: the sentinel is never computed and nothing is returned, where the
  docstring says "or None if no model was found". The defect is the one of claim C7,
  the check on the number of fields that does not return.
\<close>

theorem best_model_raises_on_undecodable_entry:
  "parse_model_filename \<lparr> name = ''model.hdf5'', is_dir = False \<rparr> = Inl IndexError
   \<and> get_models dir_unnamed None None None None = Inl IndexError
   \<and> get_max_data_version dir_unnamed = Inl IndexError
   \<and> get_best_model dir_unnamed None None None None = Inl IndexError
   \<and> get_best_model dir_unnamed (Some ''roads'') None (Some ''unet'') None = Inl IndexError
   \<and> get_max_data_version [] = Inr (- 1)
   \<and> get_best_model [] None None None None = Inr None"
  by (simp add: parse_short get_best_model_def get_max_data_version_def get_models_def
        parse_unnamed scan_empty_dir bind_err_def opt_filter_def)

section \<open>Rounding\<close>















section \<open>Scores of a candidate\<close>





end
